theory Spec2Isabelle
  imports Main
begin

section \<open>Data model\<close>

text \<open>
  The server of \<^verbatim>\<open>src/server.js\<close> is a set of Express request handlers over one MySQL
  connection. A handler is modelled as a function from the request and the database to an
  outcome: the HTTP response, the database after the request, and the trace of the calls it
  made to the database driver and to the hashing and token libraries, in order.

  Timestamps are JavaScript \<^verbatim>\<open>Date\<close> values: integer milliseconds since the epoch.
  A body field of a request is \<open>None\<close> when it is absent (\<^verbatim>\<open>undefined\<close>) and
  \<open>Some s\<close> when it is the string \<open>s\<close>; other JSON values are outside the model.
  Strings are sequences of 8-bit code units. The database is assumed to answer every
  query: the \<^verbatim>\<open>catch\<close> branch of a handler is reached when a library call throws.
\<close>

type_synonym timestamp = int

record user_row =
  u_id :: nat
  u_first_name :: "string option"
  u_last_name :: "string option"
  u_username :: "string option"
  u_email :: "string option"
  u_password :: string

record log_row =
  user_id :: nat
  login_time :: timestamp
  logout_time :: "timestamp option"
  session_duration :: "int option"

record product_row =
  p_id :: nat
  product :: string
  disease :: string
  purchase_link :: string

record db =
  users :: "user_row list"
  users_auto_increment :: nat
  user_log :: "log_row list"
  disease_solutions :: "(string \<times> string) list list"
  disease_products :: "product_row list"

text \<open>\<^verbatim>\<open>req.body\<close> after \<^verbatim>\<open>express.json()\<close>: the fields the handlers destructure.\<close>

record req_body =
  firstName :: "string option"
  lastName :: "string option"
  username :: "string option"
  email :: "string option"
  password :: "string option"
  confirmPassword :: "string option"

record jwt_payload =
  pid :: nat
  pusername :: "string option"

text \<open>
  What the source takes from outside the repository: the comparison of the string columns
  (their collation), the client flag that decides whether \<^verbatim>\<open>affectedRows\<close> counts matched
  or changed rows, \<^verbatim>\<open>bcryptjs\<close> and \<^verbatim>\<open>jsonwebtoken\<close> (with the secret of the process).
\<close>

record env =
  col_eq :: "string \<Rightarrow> string \<Rightarrow> bool"
  found_rows :: bool
  bcrypt_hash :: "string \<Rightarrow> string"
  bcrypt_compare :: "string \<Rightarrow> string \<Rightarrow> bool"
  jwt_sign :: "nat \<Rightarrow> string option \<Rightarrow> timestamp \<Rightarrow> string"
  jwt_verify :: "string \<Rightarrow> timestamp \<Rightarrow> jwt_payload option"

datatype profile = Profile "string option" "string option" "string option" "string option"

datatype json_body =
    Message string
  | SignupOk
  | LoginOk string nat
  | Success
  | ErrorBody string
  | ServerError string
  | UsernameBody "string option"
  | ProfileBody profile
  | SolutionRows "(string \<times> string) list list"
  | DiseaseRows "string list"
  | MedicineRows "product_row list"

datatype response = Response (status: nat) (body: json_body)

datatype sql =
    SelectUsersByUsernameOrEmail
  | InsertUser
  | SelectUsersByUsername
  | InsertUserLog
  | SelectLatestOpenLog
  | UpdateOpenLogs
  | SelectUsernameById
  | SelectProfileById
  | SelectOtherUsersByUsernameOrEmail
  | UpdateUserById
  | SelectDiseaseSolutions
  | SelectDistinctDiseases
  | SelectMedicine

datatype effect = Query sql | BcryptHash | BcryptCompare | JwtSign | JwtVerify

record outcome =
  resp :: response
  store :: db
  trace :: "effect list"

section \<open>JavaScript and SQL primitives\<close>

text \<open>\<^verbatim>\<open>!v\<close> on an absent or string value: \<^verbatim>\<open>undefined\<close> and the empty string are falsy.\<close>

definition falsy :: "string option \<Rightarrow> bool" where
  "falsy v = (case v of None \<Rightarrow> True | Some s \<Rightarrow> s = [])"

text \<open>\<^verbatim>\<open>s.split(c)\<close> for a one-character separator: every occurrence separates.\<close>

fun js_split :: "char \<Rightarrow> string \<Rightarrow> string list" where
  "js_split c [] = [[]]"
| "js_split c (x # xs) =
     (if x = c then [] # js_split c xs
      else (case js_split c xs of [] \<Rightarrow> [[x]] | w # ws \<Rightarrow> (x # w) # ws))"

text \<open>\<^verbatim>\<open>a[i]\<close>: \<^verbatim>\<open>undefined\<close> out of range.\<close>

definition js_index :: "'a list \<Rightarrow> nat \<Rightarrow> 'a option" where
  "js_index xs i = (if i < length xs then Some (xs ! i) else None)"

text \<open>
  A bound parameter against a column, in a \<^verbatim>\<open>WHERE col = ?\<close>: an absent parameter is
  sent as \<^verbatim>\<open>NULL\<close>, and a comparison with \<^verbatim>\<open>NULL\<close> selects no row.
\<close>

definition sql_eq :: "env \<Rightarrow> string option \<Rightarrow> string option \<Rightarrow> bool" where
  "sql_eq e col param =
     (case col of None \<Rightarrow> False
      | Some c \<Rightarrow> (case param of None \<Rightarrow> False | Some p \<Rightarrow> col_eq e c p))"

text \<open>
  \<^verbatim>\<open>bcrypt.hash(s, 10)\<close> and \<^verbatim>\<open>bcrypt.compare(s, hash)\<close> of \<^verbatim>\<open>bcryptjs\<close> throw on an
  argument that is not a string.
\<close>

definition bcrypt_hash_js :: "env \<Rightarrow> string option \<Rightarrow> string + string" where
  "bcrypt_hash_js e s =
     (case s of None \<Rightarrow> Inl ''Illegal arguments: undefined, number''
      | Some p \<Rightarrow> Inr (bcrypt_hash e p))"

definition bcrypt_compare_js :: "env \<Rightarrow> string option \<Rightarrow> string \<Rightarrow> string + bool" where
  "bcrypt_compare_js e s h =
     (case s of None \<Rightarrow> Inl ''Illegal arguments: undefined, string''
      | Some p \<Rightarrow> Inr (bcrypt_compare e p h))"

section \<open>The auth gate\<close>

text \<open>
  \<^verbatim>\<open>authenticateToken\<close>: the token is the second part of the header split at spaces.
  \<open>Inl\<close> is the response that ends the request, \<open>Inr\<close> the payload stored in
  \<^verbatim>\<open>req.user\<close> before \<^verbatim>\<open>next()\<close>.
\<close>

definition header_token :: "string option \<Rightarrow> string option" where
  "header_token h = (case h of None \<Rightarrow> None | Some s \<Rightarrow> js_index (js_split (CHR '' '') s) 1)"

definition authenticateToken :: "env \<Rightarrow> timestamp \<Rightarrow> string option \<Rightarrow> response + jwt_payload" where
  "authenticateToken e now h =
     (let token = header_token h in
      if falsy token then Inl (Response 403 (Message ''Access Denied''))
      else (case token of
              None \<Rightarrow> Inl (Response 403 (Message ''Access Denied''))
            | Some t \<Rightarrow>
                (case jwt_verify e t now of
                   None \<Rightarrow> Inl (Response 403 (Message ''Invalid token''))
                 | Some u \<Rightarrow> Inr u)))"

definition protected ::
  "env \<Rightarrow> timestamp \<Rightarrow> string option \<Rightarrow> (jwt_payload \<Rightarrow> db \<Rightarrow> outcome) \<Rightarrow> db \<Rightarrow> outcome" where
  "protected e now h handler d =
     (case authenticateToken e now h of
        Inl r \<Rightarrow> \<lparr>resp = r, store = d, trace = (if falsy (header_token h) then [] else [JwtVerify])\<rparr>
      | Inr u \<Rightarrow> (let out = handler u d in out\<lparr>trace := JwtVerify # trace out\<rparr>))"

section \<open>Signup and login\<close>

definition select_users_by_username_or_email ::
  "env \<Rightarrow> string option \<Rightarrow> string option \<Rightarrow> db \<Rightarrow> user_row list" where
  "select_users_by_username_or_email e un em d =
     filter (\<lambda>u. sql_eq e (u_username u) un \<or> sql_eq e (u_email u) em) (users d)"

definition insert_user :: "req_body \<Rightarrow> string \<Rightarrow> db \<Rightarrow> db" where
  "insert_user b hashed d =
     d\<lparr>users := users d @
          [\<lparr>u_id = users_auto_increment d, u_first_name = firstName b,
            u_last_name = lastName b, u_username = username b, u_email = email b,
            u_password = hashed\<rparr>],
       users_auto_increment := Suc (users_auto_increment d)\<rparr>"

definition signup :: "env \<Rightarrow> req_body \<Rightarrow> db \<Rightarrow> outcome" where
  "signup e b d =
     (if falsy (firstName b) \<or> falsy (lastName b) \<or> falsy (username b) \<or> falsy (email b)
         \<or> falsy (password b) \<or> falsy (confirmPassword b)
      then \<lparr>resp = Response 400 (Message ''All fields are required''), store = d, trace = []\<rparr>
      else if password b \<noteq> confirmPassword b
      then \<lparr>resp = Response 400 (Message ''Passwords do not match''), store = d, trace = []\<rparr>
      else if length (select_users_by_username_or_email e (username b) (email b) d) > 0
      then \<lparr>resp = Response 400 (Message ''User already exists with this username or email''),
            store = d, trace = [Query SelectUsersByUsernameOrEmail]\<rparr>
      else (case bcrypt_hash_js e (password b) of
              Inl msg \<Rightarrow> \<lparr>resp = Response 500 (ErrorBody msg), store = d,
                          trace = [Query SelectUsersByUsernameOrEmail, BcryptHash]\<rparr>
            | Inr hashed \<Rightarrow>
                \<lparr>resp = Response 201 SignupOk, store = insert_user b hashed d,
                 trace = [Query SelectUsersByUsernameOrEmail, BcryptHash, Query InsertUser]\<rparr>))"

text \<open>The request passes both checks that precede the database query.\<close>

definition valid_signup :: "req_body \<Rightarrow> bool" where
  "valid_signup b =
     (\<not> falsy (firstName b) \<and> \<not> falsy (lastName b) \<and> \<not> falsy (username b)
      \<and> \<not> falsy (email b) \<and> \<not> falsy (password b) \<and> \<not> falsy (confirmPassword b)
      \<and> password b = confirmPassword b)"

definition select_users_by_username :: "env \<Rightarrow> string option \<Rightarrow> db \<Rightarrow> user_row list" where
  "select_users_by_username e un d = filter (\<lambda>u. sql_eq e (u_username u) un) (users d)"

text \<open>
  The \<^verbatim>\<open>INSERT\<close> of the login stores the \<^verbatim>\<open>Date\<close> it is given: the column is taken to
  keep the instant as it is. The theorems on the logout hold for any stored login time.
\<close>

definition insert_user_log :: "nat \<Rightarrow> timestamp \<Rightarrow> db \<Rightarrow> db" where
  "insert_user_log uid t d =
     d\<lparr>user_log := user_log d @
          [\<lparr>user_id = uid, login_time = t, logout_time = None, session_duration = None\<rparr>]\<rparr>"

definition login :: "env \<Rightarrow> timestamp \<Rightarrow> req_body \<Rightarrow> db \<Rightarrow> outcome" where
  "login e now b d =
     (case select_users_by_username e (username b) d of
        [] \<Rightarrow> \<lparr>resp = Response 400 (Message ''Invalid username or password''), store = d,
               trace = [Query SelectUsersByUsername]\<rparr>
      | user # _ \<Rightarrow>
          (case bcrypt_compare_js e (password b) (u_password user) of
             Inl msg \<Rightarrow> \<lparr>resp = Response 500 (ErrorBody msg), store = d,
                         trace = [Query SelectUsersByUsername, BcryptCompare]\<rparr>
           | Inr isMatch \<Rightarrow>
               if \<not> isMatch
               then \<lparr>resp = Response 400 (Message ''Invalid username or password''), store = d,
                     trace = [Query SelectUsersByUsername, BcryptCompare]\<rparr>
               else \<lparr>resp = Response 200
                              (LoginOk (jwt_sign e (u_id user) (u_username user) now) (u_id user)),
                     store = insert_user_log (u_id user) now d,
                     trace = [Query SelectUsersByUsername, BcryptCompare, JwtSign,
                              Query InsertUserLog]\<rparr>))"

section \<open>Logout\<close>

text \<open>
  The two statements of the handler. The \<^verbatim>\<open>SELECT\<close> orders the open rows of the user
  by login time, latest first, and keeps one; the \<^verbatim>\<open>UPDATE\<close> writes every row that
  satisfies \<^verbatim>\<open>user_id = ? AND logout_time IS NULL\<close>.
\<close>

definition is_open :: "nat \<Rightarrow> log_row \<Rightarrow> bool" where
  "is_open uid r = (user_id r = uid \<and> logout_time r = None)"

definition select_latest_open_log :: "nat \<Rightarrow> db \<Rightarrow> log_row list" where
  "select_latest_open_log uid d =
     take 1 (sort_key (\<lambda>r. - login_time r) (filter (is_open uid) (user_log d)))"

definition update_open_logs :: "timestamp \<Rightarrow> int \<Rightarrow> nat \<Rightarrow> db \<Rightarrow> db" where
  "update_open_logs t dur uid d =
     d\<lparr>user_log :=
          map (\<lambda>r. if is_open uid r then r\<lparr>logout_time := Some t, session_duration := Some dur\<rparr>
                   else r)
              (user_log d)\<rparr>"

definition logout :: "timestamp \<Rightarrow> jwt_payload \<Rightarrow> db \<Rightarrow> outcome" where
  "logout logoutTime u d =
     (case select_latest_open_log (pid u) d of
        [] \<Rightarrow> \<lparr>resp = Response 400 (Message ''No active session found''), store = d,
               trace = [Query SelectLatestOpenLog]\<rparr>
      | r # _ \<Rightarrow>
          (let sessionDuration = (logoutTime - login_time r) div 1000 in
           \<lparr>resp = Response 200 Success,
            store = update_open_logs logoutTime sessionDuration (pid u) d,
            trace = [Query SelectLatestOpenLog, Query UpdateOpenLogs]\<rparr>))"

section \<open>Profile\<close>

definition select_user_by_id :: "nat \<Rightarrow> db \<Rightarrow> user_row list" where
  "select_user_by_id i d = filter (\<lambda>u. u_id u = i) (users d)"

definition getUsername :: "jwt_payload \<Rightarrow> db \<Rightarrow> outcome" where
  "getUsername u d =
     (case select_user_by_id (pid u) d of
        [] \<Rightarrow> \<lparr>resp = Response 404 (Message ''User not found''), store = d,
               trace = [Query SelectUsernameById]\<rparr>
      | r # _ \<Rightarrow> \<lparr>resp = Response 200 (UsernameBody (u_username r)), store = d,
                  trace = [Query SelectUsernameById]\<rparr>)"

definition getProfile :: "jwt_payload \<Rightarrow> db \<Rightarrow> outcome" where
  "getProfile u d =
     (case select_user_by_id (pid u) d of
        [] \<Rightarrow> \<lparr>resp = Response 404 (Message ''User not found''), store = d,
               trace = [Query SelectProfileById]\<rparr>
      | r # _ \<Rightarrow>
          \<lparr>resp = Response 200
                    (ProfileBody (Profile (u_username r) (u_email r) (u_first_name r) (u_last_name r))),
           store = d, trace = [Query SelectProfileById]\<rparr>)"

text \<open>
  The email test \<^verbatim>\<open>/\S+@\S+\.\S+/.test(email)\<close>. The class \<^verbatim>\<open>\s\<close> on 8-bit code units is
  tab, line feed, vertical tab, form feed, carriage return, space and no-break space.
  The pattern has no anchors, so \<^verbatim>\<open>test\<close> looks for a match starting at any position:
  \<open>local_part\<close> matches the whole pattern at the head of a string, \<open>domain_part\<close> the
  pattern after the \<^verbatim>\<open>@\<close>, \<open>dot_part\<close> the pattern from the dot on. An absent value
  is converted to the string \<^verbatim>\<open>undefined\<close> first.
\<close>

definition js_space :: "char \<Rightarrow> bool" where
  "js_space c = (c \<in> set [CHR 0x09, CHR 0x0A, CHR 0x0B, CHR 0x0C, CHR 0x0D, CHR 0x20, CHR 0xA0])"

fun dot_part :: "string \<Rightarrow> bool" where
  "dot_part (d # c # _) = (d = CHR ''.'' \<and> \<not> js_space c)"
| "dot_part _ = False"

fun domain_part :: "string \<Rightarrow> bool" where
  "domain_part [] = False"
| "domain_part (c # cs) = (\<not> js_space c \<and> (dot_part cs \<or> domain_part cs))"

fun at_part :: "string \<Rightarrow> bool" where
  "at_part [] = False"
| "at_part (c # cs) = (c = CHR ''@'' \<and> domain_part cs)"

fun local_part :: "string \<Rightarrow> bool" where
  "local_part [] = False"
| "local_part (c # cs) = (\<not> js_space c \<and> (at_part cs \<or> local_part cs))"

fun email_regex_search :: "string \<Rightarrow> bool" where
  "email_regex_search [] = False"
| "email_regex_search (c # cs) = (local_part (c # cs) \<or> email_regex_search cs)"

definition js_to_string :: "string option \<Rightarrow> string" where
  "js_to_string v = (case v of None \<Rightarrow> ''undefined'' | Some s \<Rightarrow> s)"

definition email_regex_test :: "string option \<Rightarrow> bool" where
  "email_regex_test v = email_regex_search (js_to_string v)"

definition select_other_users_by_username_or_email ::
  "env \<Rightarrow> string option \<Rightarrow> string option \<Rightarrow> nat \<Rightarrow> db \<Rightarrow> user_row list" where
  "select_other_users_by_username_or_email e un em i d =
     filter (\<lambda>u. (sql_eq e (u_username u) un \<or> sql_eq e (u_email u) em) \<and> u_id u \<noteq> i) (users d)"

definition set_profile :: "req_body \<Rightarrow> user_row \<Rightarrow> user_row" where
  "set_profile b r =
     r\<lparr>u_first_name := firstName b, u_last_name := lastName b, u_username := username b,
       u_email := email b\<rparr>"

definition update_user_by_id :: "req_body \<Rightarrow> nat \<Rightarrow> db \<Rightarrow> db" where
  "update_user_by_id b i d =
     d\<lparr>users := map (\<lambda>r. if u_id r = i then set_profile b r else r) (users d)\<rparr>"

text \<open>
  \<^verbatim>\<open>result.affectedRows\<close>: the rows the \<^verbatim>\<open>WHERE\<close> matched when the connection has the
  found-rows flag, the rows whose values changed otherwise.
\<close>

definition affectedRows :: "env \<Rightarrow> req_body \<Rightarrow> nat \<Rightarrow> db \<Rightarrow> nat" where
  "affectedRows e b i d =
     length (filter (\<lambda>r. u_id r = i \<and> (found_rows e \<or> set_profile b r \<noteq> r)) (users d))"

text \<open>
  The handler; its \<^verbatim>\<open>catch\<close> branch (500 with the body \<open>ServerError\<close>) is reached by no
  call of the model, the test of the pattern and the two queries do not throw.
\<close>

definition updateProfile :: "env \<Rightarrow> req_body \<Rightarrow> jwt_payload \<Rightarrow> db \<Rightarrow> outcome" where
  "updateProfile e b u d =
     (if \<not> email_regex_test (email b)
      then \<lparr>resp = Response 400 (Message ''Invalid email format''), store = d, trace = []\<rparr>
      else if length (select_other_users_by_username_or_email e (username b) (email b) (pid u) d) > 0
      then \<lparr>resp = Response 400 (Message ''Username or email already in use''), store = d,
            trace = [Query SelectOtherUsersByUsernameOrEmail]\<rparr>
      else if affectedRows e b (pid u) d = 0
      then \<lparr>resp = Response 404 (Message ''User not found or no changes made''),
            store = update_user_by_id b (pid u) d,
            trace = [Query SelectOtherUsersByUsernameOrEmail, Query UpdateUserById]\<rparr>
      else \<lparr>resp = Response 200 (Message ''Profile updated successfully''),
            store = update_user_by_id b (pid u) d,
            trace = [Query SelectOtherUsersByUsernameOrEmail, Query UpdateUserById]\<rparr>)"

section \<open>Reference data\<close>

definition getDiseaseSolutions :: "db \<Rightarrow> outcome" where
  "getDiseaseSolutions d =
     \<lparr>resp = Response 200 (SolutionRows (disease_solutions d)), store = d,
      trace = [Query SelectDiseaseSolutions]\<rparr>"

definition getDiseases :: "db \<Rightarrow> outcome" where
  "getDiseases d =
     \<lparr>resp = Response 200 (DiseaseRows (remdups (map disease (disease_products d)))), store = d,
      trace = [Query SelectDistinctDiseases]\<rparr>"

definition getMedicine :: "db \<Rightarrow> outcome" where
  "getMedicine d =
     \<lparr>resp = Response 200 (MedicineRows (disease_products d)), store = d,
      trace = [Query SelectMedicine]\<rparr>"

section \<open>The routes\<close>

datatype request =
    PostSignup req_body
  | PostLogin req_body
  | PostLogout "string option"
  | GetUsername "string option"
  | GetProfile "string option"
  | PutUpdateProfile "string option" req_body
  | GetDiseaseSolutions
  | GetDiseases
  | GetMedicine

fun handle :: "env \<Rightarrow> timestamp \<Rightarrow> request \<Rightarrow> db \<Rightarrow> outcome" where
  "handle e now (PostSignup b) d = signup e b d"
| "handle e now (PostLogin b) d = login e now b d"
| "handle e now (PostLogout h) d = protected e now h (logout now) d"
| "handle e now (GetUsername h) d = protected e now h getUsername d"
| "handle e now (GetProfile h) d = protected e now h getProfile d"
| "handle e now (PutUpdateProfile h b) d = protected e now h (updateProfile e b) d"
| "handle e now GetDiseaseSolutions d = getDiseaseSolutions d"
| "handle e now GetDiseases d = getDiseases d"
| "handle e now GetMedicine d = getMedicine d"

text \<open>Requests served one after the other, each with the clock reading of its arrival.\<close>

fun run :: "env \<Rightarrow> (timestamp \<times> request) list \<Rightarrow> db \<Rightarrow> db" where
  "run e [] d = d"
| "run e ((now, rq) # rest) d = run e rest (store (handle e now rq d))"

section \<open>Closed session records\<close>

text \<open>
  Every record of the session log that is closed in \<open>d\<close> (its logout time is set) is
  at the same place in \<open>d'\<close>, with the same four fields.
\<close>

definition closed_rows_kept :: "db \<Rightarrow> db \<Rightarrow> bool" where
  "closed_rows_kept d d' =
     (\<forall>i<length (user_log d). logout_time (user_log d ! i) \<noteq> None \<longrightarrow>
        i < length (user_log d') \<and> user_log d' ! i = user_log d ! i)"

section \<open>Example data\<close>

text \<open>
  A concrete environment and a database with the user of the example of the specification
  (Ann Lee, \<^verbatim>\<open>alee\<close>), on which the theorems below are instantiated.
\<close>

definition alee_payload :: jwt_payload where
  "alee_payload = \<lparr>pid = 1, pusername = Some ''alee''\<rparr>"

definition plain_env :: env where
  "plain_env =
     \<lparr>col_eq = (=), found_rows = True,
      bcrypt_hash = (\<lambda>p. ''$2a$'' @ p),
      bcrypt_compare = (\<lambda>p h. h = ''$2a$'' @ p),
      jwt_sign = (\<lambda>i u t. ''tok''),
      jwt_verify = (\<lambda>t now. if t = ''tok'' then Some alee_payload else None)\<rparr>"

definition alee_row :: user_row where
  "alee_row =
     \<lparr>u_id = 1, u_first_name = Some ''Ann'', u_last_name = Some ''Lee'',
      u_username = Some ''alee'', u_email = Some ''ann@x.com'', u_password = ''$2a$pw123''\<rparr>"

definition empty_db :: db where
  "empty_db =
     \<lparr>users = [], users_auto_increment = 1, user_log = [], disease_solutions = [],
      disease_products = []\<rparr>"

definition alee_db :: db where
  "alee_db = empty_db\<lparr>users := [alee_row], users_auto_increment := 2\<rparr>"

definition open_row :: "timestamp \<Rightarrow> log_row" where
  "open_row t = \<lparr>user_id = 1, login_time = t, logout_time = None, session_duration = None\<rparr>"

definition two_logins_db :: db where
  "two_logins_db = alee_db\<lparr>user_log := [open_row 100000, open_row 200000]\<rparr>"

definition alee_login :: req_body where
  "alee_login =
     \<lparr>firstName = None, lastName = None, username = Some ''alee'', email = None,
      password = Some ''pw123'', confirmPassword = None\<rparr>"

definition ann_signup :: req_body where
  "ann_signup =
     \<lparr>firstName = Some ''Ann'', lastName = Some ''Lee'', username = Some ''alee'',
      email = Some ''ann@x.com'', password = Some ''pw123'', confirmPassword = Some ''pw123''\<rparr>"

definition space_profile :: req_body where
  "space_profile =
     \<lparr>firstName = Some ''Ann'', lastName = Some ''Lee'', username = Some ''alee'',
      email = Some ''a b@c.d'', password = None, confirmPassword = None\<rparr>"

definition closed_row :: log_row where
  "closed_row = \<lparr>user_id = 1, login_time = 100000, logout_time = Some 160000, session_duration = Some 60\<rparr>"

definition one_closed_db :: db where
  "one_closed_db = alee_db\<lparr>user_log := [closed_row]\<rparr>"

lemmas example_defs =
  alee_payload_def plain_env_def alee_row_def empty_db_def alee_db_def open_row_def
  two_logins_db_def alee_login_def ann_signup_def

section \<open>Logout: the statements and their effect on the session log\<close>

lemma select_latest_open_log_Nil:
  "select_latest_open_log uid d = [] \<longleftrightarrow> (\<forall>r\<in>set (user_log d). \<not> is_open uid r)"
proof -
  have "sort_key f xs = [] \<longleftrightarrow> xs = []" for f :: "log_row \<Rightarrow> int" and xs
    using length_sort [of f xs] by (metis length_0_conv)
  then show ?thesis
    by (simp add: select_latest_open_log_def filter_empty_conv)
qed

lemma select_latest_open_log_Cons:
  assumes "select_latest_open_log uid d = r # rs"
  shows "rs = [] \<and> r \<in> set (user_log d) \<and> is_open uid r
    \<and> (\<forall>x\<in>set (user_log d). is_open uid x \<longrightarrow> login_time x \<le> login_time r)"
proof -
  define f where "f = (\<lambda>x::log_row. - login_time x)"
  define ys where "ys = sort_key f (filter (is_open uid) (user_log d))"
  have tk: "take 1 ys = r # rs"
    using assms by (simp add: select_latest_open_log_def ys_def f_def)
  then obtain zs where ys: "ys = r # zs" and rs: "rs = []"
    by (cases ys) auto
  have "set ys = {x \<in> set (user_log d). is_open uid x}"
    by (simp add: ys_def)
  then have mem: "r \<in> set (user_log d)" "is_open uid r"
    and all: "\<And>x. x \<in> set (user_log d) \<Longrightarrow> is_open uid x \<Longrightarrow> x \<in> set ys"
    using ys by auto
  have "sorted (map f ys)"
    by (simp add: ys_def)
  then have "\<And>x. x \<in> set ys \<Longrightarrow> f r \<le> f x"
    using ys by auto
  then have "\<And>x. x \<in> set (user_log d) \<Longrightarrow> is_open uid x \<Longrightarrow> login_time x \<le> login_time r"
    using all by (fastforce simp: f_def)
  with rs mem show ?thesis by blast
qed

lemma update_open_logs_log:
  "user_log (update_open_logs t dur uid d) =
     map (\<lambda>r. if is_open uid r then r\<lparr>logout_time := Some t, session_duration := Some dur\<rparr>
               else r) (user_log d)"
  unfolding update_open_logs_def by simp

lemma update_open_logs_nth:
  assumes "i < length (user_log d)"
  shows "user_log (update_open_logs t dur uid d) ! i =
     (if is_open uid (user_log d ! i)
      then (user_log d ! i)\<lparr>logout_time := Some t, session_duration := Some dur\<rparr>
      else user_log d ! i)"
  unfolding update_open_logs_log using assms by (simp only: nth_map)

lemma update_open_logs_none_open:
  assumes "r \<in> set (user_log (update_open_logs t dur uid d))"
  shows "\<not> is_open uid r"
proof -
  from assms obtain x where x: "x \<in> set (user_log d)"
    and r: "r = (if is_open uid x then x\<lparr>logout_time := Some t, session_duration := Some dur\<rparr> else x)"
    unfolding update_open_logs_log by (auto simp only: set_map image_iff)
  show ?thesis
  proof (cases "is_open uid x")
    case True
    then have "logout_time r = Some t" using r by simp
    then show ?thesis by (simp add: is_open_def)
  next
    case False
    then show ?thesis using r by simp
  qed
qed

lemma logout_Nil:
  assumes "select_latest_open_log (pid u) d = []"
  shows "logout t u d =
     \<lparr>resp = Response 400 (Message ''No active session found''), store = d,
      trace = [Query SelectLatestOpenLog]\<rparr>"
  unfolding logout_def using assms by simp

lemma logout_Cons:
  assumes "select_latest_open_log (pid u) d = r # rs"
  shows "logout t u d =
     \<lparr>resp = Response 200 Success,
      store = update_open_logs t ((t - login_time r) div 1000) (pid u) d,
      trace = [Query SelectLatestOpenLog, Query UpdateOpenLogs]\<rparr>"
  unfolding logout_def using assms by (simp add: Let_def)

lemma select_latest_two_logins:
  "select_latest_open_log (pid alee_payload) two_logins_db = [open_row 200000]"
  by (simp add: example_defs select_latest_open_log_def is_open_def)

text \<open>
  Claim C1. The specification says that a logout closes the latest open record of the user
  only. The \<^verbatim>\<open>UPDATE\<close> of the handler has no condition that singles out the selected
  record: after two logins of the same user (at 100 s and at 200 s) and one logout
  (at 260 s), both records are closed, and both carry the duration computed from the
  later login.
\<close>

theorem logout_closes_every_open_record:
  "user_log (run plain_env
      [(100000, PostLogin alee_login), (200000, PostLogin alee_login),
       (260000, PostLogout (Some ''Bearer tok''))] alee_db) =
   [\<lparr>user_id = 1, login_time = 100000, logout_time = Some 260000, session_duration = Some 60\<rparr>,
    \<lparr>user_id = 1, login_time = 200000, logout_time = Some 260000, session_duration = Some 60\<rparr>]"
  by (simp add: example_defs login_def select_users_by_username_def
      sql_eq_def bcrypt_compare_js_def insert_user_log_def protected_def authenticateToken_def
      header_token_def js_index_def falsy_def logout_def select_latest_open_log_def is_open_def
      update_open_logs_def)

text \<open>
  Claim C2. When the \<^verbatim>\<open>SELECT\<close> of the logout finds a record \<open>r\<close>, the logout succeeds;
  \<open>r\<close> is an open record of the user with the latest login time among them; the record
  is written with the logout time and with the duration
  \<open>\<lfloor>(logoutTime - login_time r) / 1000\<rfloor>\<close>, the whole seconds between the two
  instants; and the duration is not negative when the clock has not gone backwards.
\<close>

theorem logout_duration:
  assumes "select_latest_open_log (pid u) d = r # rs"
  shows "resp (logout t u d) = Response 200 Success
    \<and> r \<in> set (user_log d) \<and> is_open (pid u) r
    \<and> (\<forall>x\<in>set (user_log d). is_open (pid u) x \<longrightarrow> login_time x \<le> login_time r)
    \<and> (\<forall>i<length (user_log d). user_log d ! i = r \<longrightarrow>
          user_log (store (logout t u d)) ! i =
            r\<lparr>logout_time := Some t, session_duration := Some ((t - login_time r) div 1000)\<rparr>)
    \<and> (login_time r \<le> t \<longrightarrow> 0 \<le> (t - login_time r) div 1000)"
proof -
  note sel = select_latest_open_log_Cons [OF assms]
  note out = logout_Cons [OF assms, of t]
  have 1: "resp (logout t u d) = Response 200 Success"
    by (simp add: out)
  have 2: "user_log (store (logout t u d)) ! i =
      r\<lparr>logout_time := Some t, session_duration := Some ((t - login_time r) div 1000)\<rparr>"
    if "i < length (user_log d)" "user_log d ! i = r" for i
  proof -
    have "store (logout t u d) = update_open_logs t ((t - login_time r) div 1000) (pid u) d"
      by (simp add: out)
    then show ?thesis
      using that sel update_open_logs_nth [OF that(1)] by simp
  qed
  have 3: "0 \<le> (t - login_time r) div 1000" if "login_time r \<le> t"
    using that by (simp add: pos_imp_zdiv_nonneg_iff)
  from 1 2 3 sel show ?thesis by blast
qed

text \<open>
  Claim C2, at a concrete input: two open records of user 1, logout at 260.5 s; the record
  of the login at 200 s is selected and gets the duration 60.
\<close>

theorem logout_duration_witness:
  "select_latest_open_log (pid alee_payload) two_logins_db = [open_row 200000]
   \<and> resp (logout 260500 alee_payload two_logins_db) = Response 200 Success
   \<and> user_log (store (logout 260500 alee_payload two_logins_db)) ! 1 =
       \<lparr>user_id = 1, login_time = 200000, logout_time = Some 260500, session_duration = Some 60\<rparr>"
proof -
  note h = select_latest_two_logins
  have i: "1 < length (user_log two_logins_db)" "user_log two_logins_db ! 1 = open_row 200000"
    by (simp_all add: example_defs)
  from logout_duration [OF h, of 260500] i
  have "resp (logout 260500 alee_payload two_logins_db) = Response 200 Success"
    and "user_log (store (logout 260500 alee_payload two_logins_db)) ! 1 =
      (open_row 200000)\<lparr>logout_time := Some 260500,
         session_duration := Some ((260500 - login_time (open_row 200000)) div 1000)\<rparr>"
    by blast+
  then show ?thesis
    using h by (simp add: open_row_def)
qed

text \<open>
  Claim C3. The logout answers 400 \<^verbatim>\<open>No active session found\<close> exactly when the user has
  no record with a null logout time; the database is then left as it was; and a logout
  that follows another logout of the same user always fails this way.
\<close>

theorem logout_no_active_session:
  "(resp (logout t u d) = Response 400 (Message ''No active session found'')
      \<longleftrightarrow> \<not> (\<exists>r\<in>set (user_log d). user_id r = pid u \<and> logout_time r = None))
   \<and> (status (resp (logout t u d)) = 400
      \<longleftrightarrow> \<not> (\<exists>r\<in>set (user_log d). user_id r = pid u \<and> logout_time r = None))
   \<and> (status (resp (logout t u d)) = 400 \<longrightarrow> store (logout t u d) = d)
   \<and> resp (logout t' u (store (logout t u d))) = Response 400 (Message ''No active session found'')"
proof -
  let ?none = "\<not> (\<exists>r\<in>set (user_log d). user_id r = pid u \<and> logout_time r = None)"
  have nil: "select_latest_open_log (pid u) d = [] \<longleftrightarrow> ?none"
    unfolding select_latest_open_log_Nil is_open_def by blast
  have second: "resp (logout t' u (store (logout t u d))) =
      Response 400 (Message ''No active session found'')"
  proof -
    have "select_latest_open_log (pid u) (store (logout t u d)) = []"
    proof (cases "select_latest_open_log (pid u) d")
      case Nil
      then show ?thesis by (simp add: logout_Nil)
    next
      case (Cons r rs)
      have "store (logout t u d) = update_open_logs t ((t - login_time r) div 1000) (pid u) d"
        by (simp add: logout_Cons [OF Cons])
      then show ?thesis
        unfolding select_latest_open_log_Nil using update_open_logs_none_open by simp
    qed
    then show ?thesis by (simp add: logout_Nil)
  qed
  show ?thesis
  proof (cases "select_latest_open_log (pid u) d")
    case Nil
    then have "?none" using nil by simp
    then show ?thesis using second by (simp add: logout_Nil [OF Nil])
  next
    case (Cons r rs)
    then have "\<not> ?none" using nil by simp
    then show ?thesis using second by (simp add: logout_Cons [OF Cons])
  qed
qed

text \<open>
  Claim C3, at concrete inputs: a user with no session record gets the 400 and the
  database is unchanged; a user with two open records logs out, and the next logout fails.
\<close>

theorem logout_no_active_session_witness:
  "\<not> (\<exists>r\<in>set (user_log alee_db). user_id r = pid alee_payload \<and> logout_time r = None)
   \<and> status (resp (logout 260000 alee_payload alee_db)) = 400
   \<and> store (logout 260000 alee_payload alee_db) = alee_db
   \<and> (\<exists>r\<in>set (user_log two_logins_db). user_id r = pid alee_payload \<and> logout_time r = None)
   \<and> status (resp (logout 260000 alee_payload two_logins_db)) \<noteq> 400
   \<and> resp (logout 261000 alee_payload (store (logout 260000 alee_payload two_logins_db))) =
       Response 400 (Message ''No active session found'')"
proof -
  have a: "\<not> (\<exists>r\<in>set (user_log alee_db). user_id r = pid alee_payload \<and> logout_time r = None)"
    by (simp add: example_defs)
  have b: "\<exists>r\<in>set (user_log two_logins_db). user_id r = pid alee_payload \<and> logout_time r = None"
    by (simp add: example_defs)
  show ?thesis
    using a b logout_no_active_session [of 260000 alee_payload alee_db 261000]
      logout_no_active_session [of 260000 alee_payload two_logins_db 261000]
    by blast
qed

section \<open>Login\<close>

lemma login_unknown:
  assumes "select_users_by_username e (username b) d = []"
  shows "login e now b d =
     \<lparr>resp = Response 400 (Message ''Invalid username or password''), store = d,
      trace = [Query SelectUsersByUsername]\<rparr>"
  unfolding login_def using assms by simp

lemma login_mismatch:
  assumes "select_users_by_username e (username b) d = user # rest"
    and "password b = Some p" and "\<not> bcrypt_compare e p (u_password user)"
  shows "login e now b d =
     \<lparr>resp = Response 400 (Message ''Invalid username or password''), store = d,
      trace = [Query SelectUsersByUsername, BcryptCompare]\<rparr>"
  unfolding login_def bcrypt_compare_js_def using assms by simp

lemma login_no_password:
  assumes "select_users_by_username e (username b) d = user # rest"
    and "password b = None"
  shows "login e now b d =
     \<lparr>resp = Response 500 (ErrorBody ''Illegal arguments: undefined, string''), store = d,
      trace = [Query SelectUsersByUsername, BcryptCompare]\<rparr>"
  unfolding login_def bcrypt_compare_js_def using assms by simp

lemma select_users_by_absent_username:
  "select_users_by_username e None d = []"
  unfolding select_users_by_username_def sql_eq_def
  by (simp add: filter_empty_conv split: option.splits)

text \<open>
  Claim C4. A login with a username that no stored user has, and a login with a username
  that a stored user has and a password that the hash comparison rejects, get the same
  response: status 400 with the message \<^verbatim>\<open>Invalid username or password\<close>. Neither
  changes the database.
\<close>

theorem login_same_failure:
  assumes "select_users_by_username e (username b1) d1 = []"
    and "select_users_by_username e (username b2) d2 = user # rest"
    and "password b2 = Some p" and "\<not> bcrypt_compare e p (u_password user)"
  shows "resp (login e now1 b1 d1) = resp (login e now2 b2 d2)
    \<and> resp (login e now1 b1 d1) = Response 400 (Message ''Invalid username or password'')
    \<and> store (login e now1 b1 d1) = d1 \<and> store (login e now2 b2 d2) = d2"
  by (simp add: login_unknown [OF assms(1)] login_mismatch [OF assms(2,3,4)])

text \<open>
  Claim C4, at concrete inputs: the unknown user \<^verbatim>\<open>ghost\<close> with the right password of
  \<^verbatim>\<open>alee\<close>, and \<^verbatim>\<open>alee\<close> with a wrong password.
\<close>

theorem login_same_failure_witness:
  "select_users_by_username plain_env (username (alee_login\<lparr>username := Some ''ghost''\<rparr>)) alee_db = []
   \<and> select_users_by_username plain_env (username (alee_login\<lparr>password := Some ''wrong''\<rparr>)) alee_db = [alee_row]
   \<and> \<not> bcrypt_compare plain_env ''wrong'' (u_password alee_row)
   \<and> resp (login plain_env 5 (alee_login\<lparr>username := Some ''ghost''\<rparr>) alee_db) =
       resp (login plain_env 7 (alee_login\<lparr>password := Some ''wrong''\<rparr>) alee_db)"
proof -
  have a: "select_users_by_username plain_env (username (alee_login\<lparr>username := Some ''ghost''\<rparr>)) alee_db = []"
    by (simp add: example_defs select_users_by_username_def sql_eq_def)
  have b: "select_users_by_username plain_env (username (alee_login\<lparr>password := Some ''wrong''\<rparr>)) alee_db = [alee_row]"
    by (simp add: example_defs select_users_by_username_def sql_eq_def)
  have c: "password (alee_login\<lparr>password := Some ''wrong''\<rparr>) = Some ''wrong''"
    by simp
  have d: "\<not> bcrypt_compare plain_env ''wrong'' (u_password alee_row)"
    by (simp add: example_defs)
  show ?thesis
    using a b d login_same_failure [OF a b c d, of 5 7] by simp
qed

text \<open>
  Claim C10, as stated, fails: a login without a password for a username that no stored
  user has is answered before the hash comparison is reached, with the 400 of an invalid
  login and not with a 500.
\<close>

theorem login_absent_password_unknown_user:
  "password (alee_login\<lparr>username := Some ''ghost'', password := None\<rparr>) = None
   \<and> resp (login plain_env 5 (alee_login\<lparr>username := Some ''ghost'', password := None\<rparr>) alee_db) =
       Response 400 (Message ''Invalid username or password'')
   \<and> status (resp (login plain_env 5 (alee_login\<lparr>username := Some ''ghost'', password := None\<rparr>) alee_db)) \<noteq> 500"
  by (simp add: example_defs login_def select_users_by_username_def sql_eq_def)

text \<open>
  Claim C10, amended. The handler validates no field. When the username or the password
  is absent, the response is the 500 of the hash comparison exactly when a stored user
  matches the username, and the 400 \<^verbatim>\<open>Invalid username or password\<close> exactly when none
  does; an absent username matches no stored user; the database is unchanged.
\<close>

theorem login_absent_field:
  assumes "username b = None \<or> password b = None"
  shows "(resp (login e now b d) = Response 500 (ErrorBody ''Illegal arguments: undefined, string'')
            \<longleftrightarrow> select_users_by_username e (username b) d \<noteq> [])
    \<and> (resp (login e now b d) = Response 400 (Message ''Invalid username or password'')
            \<longleftrightarrow> select_users_by_username e (username b) d = [])
    \<and> (username b = None \<longrightarrow> select_users_by_username e (username b) d = [])
    \<and> store (login e now b d) = d"
proof (cases "select_users_by_username e (username b) d")
  case Nil
  then show ?thesis
    by (simp add: login_unknown [OF Nil] select_users_by_absent_username)
next
  case (Cons user rest)
  have "username b \<noteq> None"
  proof
    assume "username b = None"
    then show False
      using Cons select_users_by_absent_username [of e d] by simp
  qed
  with assms have "password b = None"
    by (elim disjE) simp_all
  then show ?thesis
    using Cons by (simp add: login_no_password [OF Cons] select_users_by_absent_username)
qed

text \<open>
  Claim C10 amended, at a concrete input: \<^verbatim>\<open>alee\<close> without a password gets the 500.
\<close>

theorem login_absent_field_witness:
  "password (alee_login\<lparr>password := None\<rparr>) = None
   \<and> select_users_by_username plain_env (username (alee_login\<lparr>password := None\<rparr>)) alee_db \<noteq> []
   \<and> resp (login plain_env 5 (alee_login\<lparr>password := None\<rparr>) alee_db) =
       Response 500 (ErrorBody ''Illegal arguments: undefined, string'')
   \<and> store (login plain_env 5 (alee_login\<lparr>password := None\<rparr>) alee_db) = alee_db"
proof -
  have a: "username (alee_login\<lparr>password := None\<rparr>) = None \<or> password (alee_login\<lparr>password := None\<rparr>) = None"
    by simp
  have b: "select_users_by_username plain_env (username (alee_login\<lparr>password := None\<rparr>)) alee_db \<noteq> []"
    by (simp add: example_defs select_users_by_username_def sql_eq_def)
  show ?thesis
    using b login_absent_field [OF a, of plain_env 5 alee_db] by simp
qed

section \<open>Signup\<close>

lemma select_users_by_username_or_email_empty:
  "select_users_by_username_or_email e un em d = [] \<longleftrightarrow>
     \<not> (\<exists>u\<in>set (users d). sql_eq e (u_username u) un \<or> sql_eq e (u_email u) em)"
  unfolding select_users_by_username_or_email_def by (simp add: filter_empty_conv)

lemma valid_signup_password:
  assumes "valid_signup b"
  obtains p where "password b = Some p" and "confirmPassword b = Some p" and "p \<noteq> []"
proof -
  from assms have nf: "\<not> falsy (password b)" and eq: "confirmPassword b = password b"
    by (simp_all add: valid_signup_def)
  from nf obtain p where "password b = Some p" "p \<noteq> []"
    by (cases "password b") (simp_all add: falsy_def)
  with eq that show thesis by simp
qed

lemma valid_signup_checks:
  assumes "valid_signup b"
  shows "\<not> (falsy (firstName b) \<or> falsy (lastName b) \<or> falsy (username b) \<or> falsy (email b)
         \<or> falsy (password b) \<or> falsy (confirmPassword b))"
    and "\<not> password b \<noteq> confirmPassword b"
  using assms by (simp_all add: valid_signup_def)

lemma signup_conflict_out:
  assumes "valid_signup b" and "select_users_by_username_or_email e (username b) (email b) d \<noteq> []"
  shows "signup e b d =
     \<lparr>resp = Response 400 (Message ''User already exists with this username or email''),
      store = d, trace = [Query SelectUsersByUsernameOrEmail]\<rparr>"
  unfolding signup_def
  by (simp only: valid_signup_checks [OF assms(1)] assms(2) if_False if_True length_greater_0_conv not_False_eq_True)

lemma signup_created_out:
  assumes "valid_signup b" and "select_users_by_username_or_email e (username b) (email b) d = []"
    and "password b = Some p"
  shows "signup e b d =
     \<lparr>resp = Response 201 SignupOk, store = insert_user b (bcrypt_hash e p) d,
      trace = [Query SelectUsersByUsernameOrEmail, BcryptHash, Query InsertUser]\<rparr>"
proof -
  have h: "bcrypt_hash_js e (password b) = Inr (bcrypt_hash e p)"
    by (simp add: bcrypt_hash_js_def assms(3))
  show ?thesis
    unfolding signup_def
    by (simp only: valid_signup_checks [OF assms(1)] assms(2) h if_False list.size less_irrefl
        sum.case)
qed

text \<open>
  Claim C5. For a request that passes the field checks, the signup answers 400
  \<^verbatim>\<open>User already exists with this username or email\<close> exactly when a stored user matches
  the requested username or the requested email. On that answer the database is unchanged
  and the one query made is the \<^verbatim>\<open>SELECT\<close> over both fields. Otherwise the answer is the
  201, whose body carries no token, and the table of users has the new row at its end,
  with the hash of the password.
\<close>

theorem signup_conflict:
  assumes "valid_signup b"
  shows "(resp (signup e b d) = Response 400 (Message ''User already exists with this username or email'')
            \<longleftrightarrow> (\<exists>u\<in>set (users d). sql_eq e (u_username u) (username b)
                                    \<or> sql_eq e (u_email u) (email b)))
    \<and> (resp (signup e b d) = Response 400 (Message ''User already exists with this username or email'')
          \<longrightarrow> store (signup e b d) = d
              \<and> trace (signup e b d) = [Query SelectUsersByUsernameOrEmail])
    \<and> (resp (signup e b d) \<noteq> Response 400 (Message ''User already exists with this username or email'')
          \<longrightarrow> resp (signup e b d) = Response 201 SignupOk
              \<and> (\<exists>p. password b = Some p
                    \<and> users (store (signup e b d)) =
                        users d @
                          [\<lparr>u_id = users_auto_increment d, u_first_name = firstName b,
                            u_last_name = lastName b, u_username = username b,
                            u_email = email b, u_password = bcrypt_hash e p\<rparr>]))"
proof (cases "select_users_by_username_or_email e (username b) (email b) d = []")
  case True
  from assms obtain p where p: "password b = Some p"
    by (rule valid_signup_password)
  have "\<not> (\<exists>u\<in>set (users d). sql_eq e (u_username u) (username b) \<or> sql_eq e (u_email u) (email b))"
    using True unfolding select_users_by_username_or_email_empty .
  then show ?thesis
    using p by (simp add: signup_created_out [OF assms True p] insert_user_def)
next
  case False
  have "\<exists>u\<in>set (users d). sql_eq e (u_username u) (username b) \<or> sql_eq e (u_email u) (email b)"
    using False unfolding select_users_by_username_or_email_empty by blast
  then show ?thesis
    by (simp add: signup_conflict_out [OF assms False])
qed

text \<open>
  Claim C5, at concrete inputs: the signup of Ann Lee into the empty database succeeds
  and stores her row; a signup with her username and another email is a conflict.
\<close>

theorem signup_conflict_witness:
  "valid_signup ann_signup
   \<and> resp (signup plain_env ann_signup empty_db) = Response 201 SignupOk
   \<and> users (store (signup plain_env ann_signup empty_db)) = [alee_row\<lparr>u_password := ''$2a$pw123''\<rparr>]
   \<and> resp (signup plain_env (ann_signup\<lparr>email := Some ''other@x.com''\<rparr>) alee_db) =
       Response 400 (Message ''User already exists with this username or email'')
   \<and> store (signup plain_env (ann_signup\<lparr>email := Some ''other@x.com''\<rparr>) alee_db) = alee_db"
proof -
  have v: "valid_signup ann_signup" "valid_signup (ann_signup\<lparr>email := Some ''other@x.com''\<rparr>)"
    by (simp_all add: valid_signup_def falsy_def ann_signup_def)
  have t: "\<exists>u\<in>set (users alee_db).
      sql_eq plain_env (u_username u) (username (ann_signup\<lparr>email := Some ''other@x.com''\<rparr>))
      \<or> sql_eq plain_env (u_email u) (email (ann_signup\<lparr>email := Some ''other@x.com''\<rparr>))"
    by (simp add: example_defs sql_eq_def)
  have f: "\<not> (\<exists>u\<in>set (users empty_db).
      sql_eq plain_env (u_username u) (username ann_signup)
      \<or> sql_eq plain_env (u_email u) (email ann_signup))"
    by (simp add: example_defs)
  have "resp (signup plain_env ann_signup empty_db) = Response 201 SignupOk
    \<and> (\<exists>p. password ann_signup = Some p
          \<and> users (store (signup plain_env ann_signup empty_db)) =
               users empty_db @
                 [\<lparr>u_id = users_auto_increment empty_db, u_first_name = firstName ann_signup,
                   u_last_name = lastName ann_signup, u_username = username ann_signup,
                   u_email = email ann_signup, u_password = bcrypt_hash plain_env p\<rparr>])"
    using f signup_conflict [OF v(1), of plain_env empty_db] by blast
  moreover have "resp (signup plain_env (ann_signup\<lparr>email := Some ''other@x.com''\<rparr>) alee_db) =
       Response 400 (Message ''User already exists with this username or email'')
     \<and> store (signup plain_env (ann_signup\<lparr>email := Some ''other@x.com''\<rparr>) alee_db) = alee_db"
    using t signup_conflict [OF v(2), of plain_env alee_db] by blast
  ultimately show ?thesis
    using v(1) by (auto simp: example_defs)
qed

text \<open>
  Claim C6. When one of the six fields is absent or empty, or the two passwords differ,
  the signup answers 400 (\<^verbatim>\<open>All fields are required\<close> or \<^verbatim>\<open>Passwords do not match\<close>),
  the database is unchanged and nothing has been called: no query and no hashing.
\<close>

theorem signup_validation:
  assumes "falsy (firstName b) \<or> falsy (lastName b) \<or> falsy (username b) \<or> falsy (email b)
      \<or> falsy (password b) \<or> falsy (confirmPassword b) \<or> password b \<noteq> confirmPassword b"
  shows "status (resp (signup e b d)) = 400
    \<and> (resp (signup e b d) = Response 400 (Message ''All fields are required'')
        \<or> resp (signup e b d) = Response 400 (Message ''Passwords do not match''))
    \<and> store (signup e b d) = d
    \<and> trace (signup e b d) = []"
  using assms unfolding signup_def by auto

text \<open>
  Claim C6, at concrete inputs: a different confirmation password, and an empty email.
\<close>

theorem signup_validation_witness:
  "password (ann_signup\<lparr>confirmPassword := Some ''pw124''\<rparr>)
      \<noteq> confirmPassword (ann_signup\<lparr>confirmPassword := Some ''pw124''\<rparr>)
   \<and> resp (signup plain_env (ann_signup\<lparr>confirmPassword := Some ''pw124''\<rparr>) empty_db) =
        Response 400 (Message ''Passwords do not match'')
   \<and> falsy (email (ann_signup\<lparr>email := Some ''''\<rparr>))
   \<and> resp (signup plain_env (ann_signup\<lparr>email := Some ''''\<rparr>) empty_db) =
        Response 400 (Message ''All fields are required'')
   \<and> trace (signup plain_env (ann_signup\<lparr>email := Some ''''\<rparr>) empty_db) = []"
proof -
  have a: "password (ann_signup\<lparr>confirmPassword := Some ''pw124''\<rparr>)
      \<noteq> confirmPassword (ann_signup\<lparr>confirmPassword := Some ''pw124''\<rparr>)"
    by (simp add: ann_signup_def)
  have b: "falsy (email (ann_signup\<lparr>email := Some ''''\<rparr>))"
    by (simp add: falsy_def)
  have c: "resp (signup plain_env (ann_signup\<lparr>confirmPassword := Some ''pw124''\<rparr>) empty_db) =
        Response 400 (Message ''Passwords do not match'')"
    by (simp add: signup_def ann_signup_def falsy_def)
  have d: "resp (signup plain_env (ann_signup\<lparr>email := Some ''''\<rparr>) empty_db) =
        Response 400 (Message ''All fields are required'')"
    by (simp add: signup_def ann_signup_def falsy_def)
  show ?thesis
    using a b c d
      signup_validation [of "ann_signup\<lparr>email := Some ''''\<rparr>" plain_env empty_db]
    by simp
qed

section \<open>The auth gate: which headers pass\<close>

lemma js_split_no_separator:
  "c \<notin> set s \<Longrightarrow> js_split c s = [s]"
  by (induction s) auto

lemma js_split_at_separator:
  "c \<notin> set s \<Longrightarrow> js_split c (s @ c # t) = s # js_split c t"
  by (induction s) auto

lemma js_split_not_Nil: "js_split c s \<noteq> []"
  by (induction s) (auto split: list.splits)

lemma header_token_no_space:
  assumes "CHR '' '' \<notin> set h"
  shows "header_token (Some h) = None"
  unfolding header_token_def js_index_def using js_split_no_separator [OF assms] by simp

lemma header_token_second_word:
  assumes "CHR '' '' \<notin> set s" and "CHR '' '' \<notin> set t"
  shows "header_token (Some (s @ CHR '' '' # t)) = Some t"
  unfolding header_token_def js_index_def
  using js_split_at_separator [OF assms(1), of t] js_split_no_separator [OF assms(2)] by simp

text \<open>
  Claim C9. The gate never looks at the scheme word. For a token \<open>t\<close> that the verifier
  accepts (not empty and without a space, as every signed token is) and any word \<open>s\<close>
  without a space, the header \<open>s t\<close> passes and the payload of \<open>t\<close> becomes the user
  of the request. A header without a space has no second part: the token is undefined
  and the answer is the 403 \<^verbatim>\<open>Access Denied\<close>.
\<close>

theorem gate_ignores_scheme:
  "(CHR '' '' \<notin> set s \<and> CHR '' '' \<notin> set t \<and> t \<noteq> [] \<and> jwt_verify e t now = Some u
      \<longrightarrow> authenticateToken e now (Some (s @ CHR '' '' # t)) = Inr u)
   \<and> (CHR '' '' \<notin> set h
      \<longrightarrow> header_token (Some h) = None
          \<and> authenticateToken e now (Some h) = Inl (Response 403 (Message ''Access Denied'')))"
proof -
  have "authenticateToken e now (Some (s @ CHR '' '' # t)) = Inr u"
    if "CHR '' '' \<notin> set s" "CHR '' '' \<notin> set t" "t \<noteq> []" "jwt_verify e t now = Some u"
    unfolding authenticateToken_def using that header_token_second_word [OF that(1,2)]
    by (simp add: falsy_def)
  moreover have "authenticateToken e now (Some h) = Inl (Response 403 (Message ''Access Denied''))"
    if "CHR '' '' \<notin> set h"
    unfolding authenticateToken_def using header_token_no_space [OF that]
    by (simp add: falsy_def)
  ultimately show ?thesis
    using header_token_no_space by blast
qed

text \<open>
  Claim C9, at concrete inputs: \<^verbatim>\<open>Basic tok\<close> passes as \<^verbatim>\<open>Bearer tok\<close> does, and the
  bare token \<^verbatim>\<open>tok\<close> is denied.
\<close>

theorem gate_ignores_scheme_witness:
  "authenticateToken plain_env 5 (Some ''Basic tok'') = Inr alee_payload
   \<and> authenticateToken plain_env 5 (Some ''Bearer tok'') = Inr alee_payload
   \<and> header_token (Some ''tok'') = None
   \<and> authenticateToken plain_env 5 (Some ''tok'') = Inl (Response 403 (Message ''Access Denied''))"
proof -
  have v: "jwt_verify plain_env ''tok'' 5 = Some alee_payload"
    by (simp add: plain_env_def)
  have "authenticateToken plain_env 5 (Some (''Basic'' @ CHR '' '' # ''tok'')) = Inr alee_payload"
    using v gate_ignores_scheme [of "''Basic''" "''tok''" plain_env 5 alee_payload "''tok''"]
    by simp
  moreover have "authenticateToken plain_env 5 (Some (''Bearer'' @ CHR '' '' # ''tok'')) = Inr alee_payload"
    using v gate_ignores_scheme [of "''Bearer''" "''tok''" plain_env 5 alee_payload "''tok''"]
    by simp
  moreover have "header_token (Some ''tok'') = None
      \<and> authenticateToken plain_env 5 (Some ''tok'') = Inl (Response 403 (Message ''Access Denied''))"
    using gate_ignores_scheme [of "''Basic''" "''tok''" plain_env 5 alee_payload "''tok''"]
    by simp
  ultimately show ?thesis by simp
qed

section \<open>Profile update: the email test\<close>

text \<open>An email without \<^verbatim>\<open>@\<close> fails the test and is rejected before any query.\<close>

lemma at_part_needs_at: "at_part s \<Longrightarrow> CHR ''@'' \<in> set s"
  by (cases s) auto

lemma local_part_needs_at: "local_part s \<Longrightarrow> CHR ''@'' \<in> set s"
  by (induction s) (auto dest: at_part_needs_at)

lemma email_regex_search_needs_at: "email_regex_search s \<Longrightarrow> CHR ''@'' \<in> set s"
  by (induction s) (auto dest: at_part_needs_at local_part_needs_at)

lemma updateProfile_without_at:
  assumes "CHR ''@'' \<notin> set s"
  shows "updateProfile e (b\<lparr>email := Some s\<rparr>) u d =
     \<lparr>resp = Response 400 (Message ''Invalid email format''), store = d, trace = []\<rparr>"
  unfolding updateProfile_def email_regex_test_def js_to_string_def
  using email_regex_search_needs_at [of s] assms by auto

text \<open>
  Claim C7. The specification says that an email with embedded whitespace is rejected
  before any query. The pattern of the handler is not anchored, so the email
  \<^verbatim>\<open>a b@c.d\<close> passes the test on its part \<^verbatim>\<open>b@c.d\<close>: the request of user 1 is answered
  200, both queries run, and the email with the space is stored.
\<close>

theorem updateProfile_accepts_whitespace:
  "email_regex_test (Some ''a b@c.d'')
   \<and> resp (handle plain_env 5 (PutUpdateProfile (Some ''Bearer tok'') space_profile) alee_db) =
       Response 200 (Message ''Profile updated successfully'')
   \<and> map u_email (users (store (handle plain_env 5
         (PutUpdateProfile (Some ''Bearer tok'') space_profile) alee_db))) = [Some ''a b@c.d'']
   \<and> trace (handle plain_env 5 (PutUpdateProfile (Some ''Bearer tok'') space_profile) alee_db) =
       [JwtVerify, Query SelectOtherUsersByUsernameOrEmail, Query UpdateUserById]"
  by (simp add: example_defs space_profile_def protected_def authenticateToken_def
      header_token_def js_index_def falsy_def updateProfile_def email_regex_test_def
      js_to_string_def js_space_def select_other_users_by_username_or_email_def sql_eq_def
      affectedRows_def update_user_by_id_def set_profile_def)

section \<open>Closed session records are never written again\<close>

lemma closed_rows_kept_same_log:
  "user_log d' = user_log d \<Longrightarrow> closed_rows_kept d d'"
  by (simp add: closed_rows_kept_def)

lemma closed_rows_kept_trans:
  assumes "closed_rows_kept d d'" and "closed_rows_kept d' d''"
  shows "closed_rows_kept d d''"
  unfolding closed_rows_kept_def
proof (intro allI impI)
  fix i
  assume i: "i < length (user_log d)" and c: "logout_time (user_log d ! i) \<noteq> None"
  from assms(1) i c have 1: "i < length (user_log d')" "user_log d' ! i = user_log d ! i"
    unfolding closed_rows_kept_def by blast+
  with c have "logout_time (user_log d' ! i) \<noteq> None" by simp
  with assms(2) 1 have "i < length (user_log d'')" "user_log d'' ! i = user_log d' ! i"
    unfolding closed_rows_kept_def by blast+
  with 1 show "i < length (user_log d'') \<and> user_log d'' ! i = user_log d ! i" by simp
qed

lemma signup_user_log: "user_log (store (signup e b d)) = user_log d"
  unfolding signup_def insert_user_def by (simp split: sum.splits)

lemma login_closed_rows_kept: "closed_rows_kept d (store (login e now b d))"
  unfolding login_def insert_user_log_def closed_rows_kept_def
  by (simp add: nth_append split: list.splits sum.splits)

lemma logout_closed_rows_kept: "closed_rows_kept d (store (logout t u d))"
proof (cases "select_latest_open_log (pid u) d")
  case Nil
  then show ?thesis
    by (simp add: logout_Nil closed_rows_kept_same_log)
next
  case (Cons r rs)
  have "store (logout t u d) = update_open_logs t ((t - login_time r) div 1000) (pid u) d"
    by (simp add: logout_Cons [OF Cons])
  then show ?thesis
    unfolding closed_rows_kept_def
    by (simp add: update_open_logs_log is_open_def)
qed

lemma getUsername_store: "store (getUsername u d) = d"
  unfolding getUsername_def by (simp split: list.splits)

lemma getProfile_store: "store (getProfile u d) = d"
  unfolding getProfile_def by (simp split: list.splits)

lemma updateProfile_user_log: "user_log (store (updateProfile e b u d)) = user_log d"
  unfolding updateProfile_def update_user_by_id_def by simp

lemma protected_closed_rows_kept:
  assumes "\<And>u. closed_rows_kept d (store (handler u d))"
  shows "closed_rows_kept d (store (protected e now h handler d))"
  unfolding protected_def using assms
  by (simp add: closed_rows_kept_same_log Let_def split: sum.splits)

lemma handle_closed_rows_kept: "closed_rows_kept d (store (handle e now rq d))"
proof (cases rq)
  case (PostSignup b)
  then show ?thesis by (simp add: closed_rows_kept_same_log signup_user_log)
next
  case (PostLogin b)
  then show ?thesis by (simp add: login_closed_rows_kept)
next
  case (PostLogout h)
  then show ?thesis by (simp add: protected_closed_rows_kept logout_closed_rows_kept)
next
  case (GetUsername h)
  then show ?thesis
    by (simp add: protected_closed_rows_kept closed_rows_kept_same_log getUsername_store)
next
  case (GetProfile h)
  then show ?thesis
    by (simp add: protected_closed_rows_kept closed_rows_kept_same_log getProfile_store)
next
  case (PutUpdateProfile h b)
  then show ?thesis
    by (simp add: protected_closed_rows_kept closed_rows_kept_same_log updateProfile_user_log)
next
  case GetDiseaseSolutions
  then show ?thesis by (simp add: closed_rows_kept_same_log getDiseaseSolutions_def)
next
  case GetDiseases
  then show ?thesis by (simp add: closed_rows_kept_same_log getDiseases_def)
next
  case GetMedicine
  then show ?thesis by (simp add: closed_rows_kept_same_log getMedicine_def)
qed

text \<open>
  Claim C8. Whatever the request, the records that are closed before it are unchanged
  after it; and so they are after any sequence of requests. The only statement that
  writes existing session records is the \<^verbatim>\<open>UPDATE\<close> of the logout, guarded by
  \<^verbatim>\<open>logout_time IS NULL\<close>; the login only appends.
\<close>

theorem closed_is_terminal:
  "closed_rows_kept d (store (handle e now rq d)) \<and> closed_rows_kept d (run e rqs d)"
proof
  show "closed_rows_kept d (store (handle e now rq d))"
    by (rule handle_closed_rows_kept)
  show "closed_rows_kept d (run e rqs d)"
  proof (induction rqs arbitrary: d)
    case Nil
    show ?case by (simp add: closed_rows_kept_same_log)
  next
    case (Cons x rqs)
    obtain t rq' where x: "x = (t, rq')" by (cases x)
    have "closed_rows_kept d (store (handle e t rq' d))"
      by (rule handle_closed_rows_kept)
    moreover have "closed_rows_kept (store (handle e t rq' d)) (run e rqs (store (handle e t rq' d)))"
      by (rule Cons.IH)
    ultimately show ?case
      unfolding x by (simp add: closed_rows_kept_trans)
  qed
qed

text \<open>
  Claim C8, at a concrete input: a closed record of user 1 is still the same after a
  login and two logouts of this user.
\<close>

theorem closed_is_terminal_witness:
  "logout_time (user_log one_closed_db ! 0) \<noteq> None
   \<and> user_log (run plain_env
        [(200000, PostLogin alee_login), (260000, PostLogout (Some ''Bearer tok'')),
         (270000, PostLogout (Some ''Bearer tok''))] one_closed_db) ! 0 = closed_row
   \<and> length (user_log (run plain_env
        [(200000, PostLogin alee_login), (260000, PostLogout (Some ''Bearer tok'')),
         (270000, PostLogout (Some ''Bearer tok''))] one_closed_db)) = 2"
proof -
  let ?rqs = "[(200000, PostLogin alee_login), (260000, PostLogout (Some ''Bearer tok'')),
         (270000, PostLogout (Some ''Bearer tok''))]"
  have a: "0 < length (user_log one_closed_db)" "logout_time (user_log one_closed_db ! 0) \<noteq> None"
    "user_log one_closed_db ! 0 = closed_row"
    by (simp_all add: one_closed_db_def closed_row_def)
  have "closed_rows_kept one_closed_db (run plain_env ?rqs one_closed_db)"
    using closed_is_terminal [of one_closed_db plain_env 0 GetDiseases ?rqs] by blast
  then have "user_log (run plain_env ?rqs one_closed_db) ! 0 = closed_row"
    unfolding closed_rows_kept_def using a by metis
  moreover have "length (user_log (run plain_env ?rqs one_closed_db)) = 2"
    by (simp add: example_defs one_closed_db_def closed_row_def login_def select_users_by_username_def
      sql_eq_def bcrypt_compare_js_def insert_user_log_def protected_def authenticateToken_def
      header_token_def js_index_def falsy_def logout_def select_latest_open_log_def is_open_def
      update_open_logs_def)
  ultimately show ?thesis using a by simp
qed

end
